theory Spec2Isabelle
  imports Main
begin

section \<open>Request bodies, errors and responses\<close>

text \<open>
  A decoded JSON value, as \<open>request.json()\<close> returns it. Python's \<open>None\<close> is \<open>JNull\<close>.
\<close>

datatype json =
    JNull
  | JBool bool
  | JNum int
  | JStr string
  | JArr "json list"
  | JObj "(string \<times> json) list"

text \<open>The decoded request body is a dict from field names to values.\<close>

type_synonym body = "string \<rightharpoonup> json"

text \<open>
  Exceptions are values. \<open>HTTPException\<close> carries the status code and the detail; the
  others are unhandled Python or database exceptions, which the framework answers with 500.
\<close>

datatype error =
    HTTPException nat string
  | KeyError string
  | AttributeError string
  | UnicodeEncodeError
  | ValueError string
  | UnmappedInstanceError
  | IntegrityError string

text \<open>\<open>body.get(field)\<close>: the value, or \<open>None\<close> when the key is absent.\<close>

definition body_get :: "body \<Rightarrow> string \<Rightarrow> json" where
  "body_get body field = (case body field of None \<Rightarrow> JNull | Some v \<Rightarrow> v)"

text \<open>\<open>body[field]\<close>: the value, or \<open>KeyError\<close> when the key is absent.\<close>

definition subscript :: "body \<Rightarrow> string \<Rightarrow> error + json" where
  "subscript body field = (case body field of None \<Rightarrow> Inl (KeyError field) | Some v \<Rightarrow> Inr v)"

text \<open>
  A Python \<open>str\<close> is held as the bytes of its UTF-8 form. A lone surrogate (a code point
  from D800 to DFFF, which a JSON string can carry as an escape and UTF-8 cannot encode)
  is held as the three bytes its code point would take: ED, a byte from A0 to BF, and one
  more. Two \<open>str\<close> values are equal exactly when these byte strings are.
\<close>

fun has_surrogate :: "string \<Rightarrow> bool" where
  "has_surrogate (a # b # s) =
     ((a = CHR 0xED \<and> (0xA0::nat) \<le> of_char b \<and> (of_char b :: nat) \<le> 0xBF)
      \<or> has_surrogate (b # s))"
| "has_surrogate s = False"

text \<open>
  \<open>value.encode('utf-8')\<close>: only a \<open>str\<close> has the method, and it raises on a lone
  surrogate.
\<close>

definition encode :: "json \<Rightarrow> error + string" where
  "encode v =
     (case v of
        JStr s \<Rightarrow> if has_surrogate s then Inl UnicodeEncodeError else Inr s
      | _ \<Rightarrow> Inl (AttributeError ''encode''))"

text \<open>Sequencing of steps that may raise: the first exception ends the handler.\<close>

definition and_then :: "error + 'a \<Rightarrow> ('a \<Rightarrow> error + 'b) \<Rightarrow> error + 'b" where
  "and_then m f = (case m of Inl e \<Rightarrow> Inl e | Inr v \<Rightarrow> f v)"

section \<open>Entities and the store\<close>

text \<open>
  Modelled from the spec: \<open>kanban.models\<close> (the classes User, Card and CardCategory with
  their \<open>to_dict\<close>) and \<open>kanban.database\<close> (the session) are not among the source files.
  The three record kinds have the attributes of the spec's data model; identifiers are
  strings and primary keys; the attributes a handler copies from the body hold the body's
  value as it is. Timestamps are points of a clock read as a natural number, both set at
  creation. The foreign keys are those of the spec's data model: a card refers to its
  category and to its user, a category to its user; the session operations below refuse
  a commit that would break one of them.
\<close>

record user =
  u_id :: string
  u_name :: json
  u_email :: json
  u_password :: string
  u_photo :: json
  u_created_at :: nat
  u_update_at :: nat

record card_category =
  cc_id :: string
  cc_name :: json
  cc_color :: json
  cc_user_id :: string
  cc_created_at :: nat
  cc_update_at :: nat

record card =
  c_id :: string
  c_title :: json
  c_description :: json
  c_status :: json
  c_category_id :: json
  c_user_id :: string
  c_created_at :: nat
  c_update_at :: nat

record db =
  users :: "user list"
  cards :: "card list"
  card_categories :: "card_category list"

text \<open>
  Modelled from the spec: \<open>to_dict\<close> is not among the source files; the serialised entity
  is modelled as the record itself, so a response carries the record it serialises.
\<close>

datatype content =
    UserDict user
  | CardDict card
  | CardCategoryDict card_category
  | CardDicts "card list"
  | CardCategoryDicts "card_category list"
  | ErrorDict string

datatype response = JSONResponse content nat

text \<open>
  A handler reads the body and the store. It returns a response and the store after its
  commit, or raises; an exception is raised before any commit, so it leaves the store as
  it was.
\<close>

type_synonym handler = "body \<Rightarrow> db \<Rightarrow> error + response \<times> db"

text \<open>The status code the client sees.\<close>

fun status_code :: "error + response \<times> db \<Rightarrow> nat" where
  "status_code (Inl (HTTPException code detail)) = code"
| "status_code (Inl e) = 500"
| "status_code (Inr (JSONResponse c code, d)) = code"

text \<open>
  What a handler takes from outside the request and the store: the identifier
  \<open>uuid4()\<close> returns, the salt \<open>gensalt(8)\<close> returns, the clock, and bcrypt's
  \<open>hashpw\<close>, a library function taken as a parameter: from the encoded password and the
  salt it gives the hash (ASCII, so \<open>.decode('utf-8')\<close> returns it as it is), or it raises
  (bcrypt 5 refuses a password of more than 72 bytes with \<open>ValueError\<close>).
\<close>

record env =
  uuid4 :: string
  gensalt :: string
  hashpw :: "string \<Rightarrow> string \<Rightarrow> error + string"
  now :: nat

subsection \<open>Session operations\<close>

text \<open>
  Modelled from the spec: the session of \<open>kanban.database\<close> is not among the source
  files. A lookup by primary key or by \<open>User.id == value\<close> compares the stored string
  identifier with the given value, so a value that is not a string finds no row.
\<close>

definition row_get :: "('r \<Rightarrow> string) \<Rightarrow> 'r list \<Rightarrow> json \<Rightarrow> 'r option" where
  "row_get key rows v = List.find (\<lambda>r. JStr (key r) = v) rows"

text \<open>The rows of a table with one more row; a second row with the same primary key is refused.\<close>

definition row_add :: "('r \<Rightarrow> string) \<Rightarrow> 'r \<Rightarrow> 'r list \<Rightarrow> error + 'r list" where
  "row_add key r rows =
     (if \<exists>x \<in> set rows. key x = key r then Inl (IntegrityError (key r))
      else Inr (rows @ [r]))"

text \<open>
  The rows of a table once the row with the key of \<open>r\<close> is rewritten to \<open>r\<close>, and once it
  is removed. Whether the commit that does so is accepted is decided by the session
  operations below.
\<close>

definition rows_updated :: "('r \<Rightarrow> string) \<Rightarrow> 'r \<Rightarrow> 'r list \<Rightarrow> 'r list" where
  "rows_updated key r rows = map (\<lambda>x. if key x = key r then r else x) rows"

definition rows_without :: "('r \<Rightarrow> string) \<Rightarrow> 'r \<Rightarrow> 'r list \<Rightarrow> 'r list" where
  "rows_without key r rows = filter (\<lambda>x. key x \<noteq> key r) rows"

text \<open>\<open>session.scalars(select(User).where(User.id == value)).first()\<close>.\<close>

definition select_user :: "db \<Rightarrow> json \<Rightarrow> user option" where
  "select_user d v = row_get u_id (users d) v"

text \<open>\<open>session.get(Card, value)\<close> and \<open>session.get(CardCategory, value)\<close>.\<close>

definition session_get_card :: "db \<Rightarrow> json \<Rightarrow> card option" where
  "session_get_card d v = row_get c_id (cards d) v"

definition session_get_card_category :: "db \<Rightarrow> json \<Rightarrow> card_category option" where
  "session_get_card_category d v = row_get cc_id (card_categories d) v"

text \<open>A category that some card refers to; a user that some card or category refers to.\<close>

definition card_category_in_use :: "db \<Rightarrow> card_category \<Rightarrow> bool" where
  "card_category_in_use d k = (\<exists>c \<in> set (cards d). c_category_id c = JStr (cc_id k))"

definition user_in_use :: "db \<Rightarrow> user \<Rightarrow> bool" where
  "user_in_use d u =
     ((\<exists>c \<in> set (cards d). c_user_id c = u_id u)
      \<or> (\<exists>k \<in> set (card_categories d). cc_user_id k = u_id u))"

text \<open>
  \<open>session.add(row); session.commit()\<close>. The insert is refused with \<open>IntegrityError\<close>
  when the row refers to a category or a user that is not stored, or when its primary key
  is taken.
\<close>

definition session_add_user :: "user \<Rightarrow> db \<Rightarrow> error + db" where
  "session_add_user u d =
     and_then (row_add u_id u (users d)) (\<lambda>rows. Inr (d\<lparr>users := rows\<rparr>))"

definition session_add_card_category :: "card_category \<Rightarrow> db \<Rightarrow> error + db" where
  "session_add_card_category k d =
     (if select_user d (JStr (cc_user_id k)) = None then Inl (IntegrityError ''user_id'')
      else and_then (row_add cc_id k (card_categories d))
             (\<lambda>rows. Inr (d\<lparr>card_categories := rows\<rparr>)))"

definition session_add_card :: "card \<Rightarrow> db \<Rightarrow> error + db" where
  "session_add_card c d =
     (if session_get_card_category d (c_category_id c) = None
      then Inl (IntegrityError ''category_id'')
      else if select_user d (JStr (c_user_id c)) = None then Inl (IntegrityError ''user_id'')
      else and_then (row_add c_id c (cards d)) (\<lambda>rows. Inr (d\<lparr>cards := rows\<rparr>)))"

text \<open>
  Attribute assignments on a loaded row, then \<open>session.commit()\<close>. The handlers assign
  one attribute that is a foreign key, a card's \<open>category_id\<close>: the update is refused
  when the new value names no stored category. No constraint of the data model concerns
  the attributes assigned on a user or on a category.
\<close>

definition session_commit_user :: "user \<Rightarrow> db \<Rightarrow> error + db" where
  "session_commit_user u d = Inr (d\<lparr>users := rows_updated u_id u (users d)\<rparr>)"

definition session_commit_card_category :: "card_category \<Rightarrow> db \<Rightarrow> error + db" where
  "session_commit_card_category k d =
     Inr (d\<lparr>card_categories := rows_updated cc_id k (card_categories d)\<rparr>)"

definition session_commit_card :: "card \<Rightarrow> db \<Rightarrow> error + db" where
  "session_commit_card c d =
     (if session_get_card_category d (c_category_id c) = None
      then Inl (IntegrityError ''category_id'')
      else Inr (d\<lparr>cards := rows_updated c_id c (cards d)\<rparr>))"

text \<open>
  \<open>session.delete(row); session.commit()\<close>. The delete is refused with
  \<open>IntegrityError\<close> while another row refers to the row; nothing refers to a card.
\<close>

definition session_delete_card :: "card \<Rightarrow> db \<Rightarrow> error + db" where
  "session_delete_card c d = Inr (d\<lparr>cards := rows_without c_id c (cards d)\<rparr>)"

definition session_delete_card_category :: "card_category \<Rightarrow> db \<Rightarrow> error + db" where
  "session_delete_card_category k d =
     (if card_category_in_use d k then Inl (IntegrityError ''category_id'')
      else Inr (d\<lparr>card_categories := rows_without cc_id k (card_categories d)\<rparr>))"

definition session_delete_user :: "user \<Rightarrow> db \<Rightarrow> error + db" where
  "session_delete_user u d =
     (if user_in_use d u then Inl (IntegrityError ''user_id'')
      else Inr (d\<lparr>users := rows_without u_id u (users d)\<rparr>))"

section \<open>The decorators\<close>

text \<open>The detail \<open>f'required field "{field}"'\<close>.\<close>

definition required_detail :: "string \<Rightarrow> string" where
  "required_detail field = ''required field '' @ [CHR 0x22] @ field @ [CHR 0x22]"

text \<open>
  \<open>required_fields(*fields)(function)\<close>: the loop over the declared names raises at
  the first one whose \<open>body.get(field)\<close> is \<open>None\<close>; after the loop the wrapped function runs.
\<close>

fun required_fields :: "string list \<Rightarrow> handler \<Rightarrow> handler" where
  "required_fields [] function body d = function body d"
| "required_fields (field # field_names) function body d =
     (if body_get body field = JNull then Inl (HTTPException 400 (required_detail field))
      else required_fields field_names function body d)"

text \<open>\<open>token_required(function)\<close>.\<close>

definition token_required :: "handler \<Rightarrow> handler" where
  "token_required function body d =
     (if body_get body ''user_id'' = JNull
      then Inl (HTTPException 400 (required_detail ''user_id''))
      else and_then (subscript body ''user_id'') (\<lambda>uid.
        case select_user d uid of
          None \<Rightarrow> Inl (HTTPException 400 ''invalid user_id'')
        | Some user \<Rightarrow> function body d))"

section \<open>The views\<close>

subsection \<open>User\<close>

definition get_user :: handler where
  "get_user body d =
     and_then (subscript body ''user_id'') (\<lambda>uid.
       case select_user d uid of
         None \<Rightarrow> Inl (AttributeError ''to_dict'')
       | Some user \<Rightarrow> Inr (JSONResponse (UserDict user) 200, d))"

definition create_user :: "env \<Rightarrow> handler" where
  "create_user e body d =
     and_then (subscript body ''password'') (\<lambda>pw.
     and_then (encode pw) (\<lambda>plain.
     and_then (hashpw e plain (gensalt e)) (\<lambda>password.
     and_then (subscript body ''name'') (\<lambda>name.
     and_then (subscript body ''email'') (\<lambda>email.
       let user = \<lparr>u_id = uuid4 e, u_name = name, u_email = email,
                   u_password = password,
                   u_photo = body_get body ''photo'',
                   u_created_at = now e, u_update_at = now e\<rparr>
       in and_then (session_add_user user d) (\<lambda>d'.
            Inr (JSONResponse (UserDict user) 200, d')))))))"

definition update_user :: "env \<Rightarrow> handler" where
  "update_user e body d =
     and_then (subscript body ''user_id'') (\<lambda>uid.
     and_then (subscript body ''password'') (\<lambda>pw.
     and_then (encode pw) (\<lambda>plain.
     and_then (hashpw e plain (gensalt e)) (\<lambda>password.
     and_then (subscript body ''name'') (\<lambda>name.
       case select_user d uid of
         None \<Rightarrow> Inl (AttributeError ''name'')
       | Some user \<Rightarrow>
           and_then (subscript body ''email'') (\<lambda>email.
             let user' = user\<lparr>u_name := name,
                              u_password := password,
                              u_email := email,
                              u_photo := body_get body ''photo'',
                              u_update_at := now e\<rparr>
             in and_then (session_commit_user user' d) (\<lambda>d'.
                  Inr (JSONResponse (UserDict user') 200, d'))))))))"

definition delete_user :: handler where
  "delete_user body d =
     and_then (subscript body ''user_id'') (\<lambda>uid.
       case select_user d uid of
         None \<Rightarrow> Inl UnmappedInstanceError
       | Some user \<Rightarrow>
           and_then (session_delete_user user d) (\<lambda>d'.
             Inr (JSONResponse (UserDict user) 200, d')))"

subsection \<open>Card\<close>

definition get_cards :: handler where
  "get_cards body d =
     and_then (subscript body ''user_id'') (\<lambda>uid.
       case select_user d uid of
         None \<Rightarrow> Inl (AttributeError ''id'')
       | Some user \<Rightarrow>
           Inr (JSONResponse (CardDicts (filter (\<lambda>c. c_user_id c = u_id user) (cards d))) 200, d))"

text \<open>
  \<open>if card and card.user_id == user.id\<close>: \<open>user.id\<close> is read only when a card was found.
\<close>

definition get_card :: "string \<Rightarrow> handler" where
  "get_card card_id body d =
     and_then (subscript body ''user_id'') (\<lambda>uid.
       case session_get_card d (JStr card_id) of
         None \<Rightarrow> Inr (JSONResponse (ErrorDict ''card not found'') 404, d)
       | Some c \<Rightarrow>
           (case select_user d uid of
              None \<Rightarrow> Inl (AttributeError ''id'')
            | Some user \<Rightarrow>
                if c_user_id c = u_id user then Inr (JSONResponse (CardDict c) 200, d)
                else Inr (JSONResponse (ErrorDict ''card not found'') 404, d)))"

definition create_card :: "env \<Rightarrow> handler" where
  "create_card e body d =
     and_then (subscript body ''user_id'') (\<lambda>uid.
     and_then (subscript body ''category_id'') (\<lambda>cat.
       case session_get_card_category d cat of
         None \<Rightarrow> Inr (JSONResponse (ErrorDict ''invalid category_id'') 400, d)
       | Some category \<Rightarrow>
           and_then (subscript body ''status'') (\<lambda>status.
           and_then (subscript body ''title'') (\<lambda>title.
             case select_user d uid of
               None \<Rightarrow> Inl (AttributeError ''id'')
             | Some user \<Rightarrow>
                 let c = \<lparr>c_id = uuid4 e, c_title = title,
                          c_description = body_get body ''description'',
                          c_status = status, c_category_id = JStr (cc_id category),
                          c_user_id = u_id user,
                          c_created_at = now e, c_update_at = now e\<rparr>
                 in and_then (session_add_card c d) (\<lambda>d'.
                      Inr (JSONResponse (CardDict c) 200, d'))))))"

definition update_card :: "env \<Rightarrow> handler" where
  "update_card e body d =
     and_then (subscript body ''id'') (\<lambda>cid.
       case session_get_card d cid of
         None \<Rightarrow> Inr (JSONResponse (ErrorDict ''card not found'') 404, d)
       | Some c \<Rightarrow>
           and_then (subscript body ''status'') (\<lambda>status.
           and_then (subscript body ''title'') (\<lambda>title.
           and_then (subscript body ''category_id'') (\<lambda>cat.
             let c' = c\<lparr>c_status := status, c_title := title,
                         c_description := body_get body ''description'',
                         c_update_at := now e, c_category_id := cat\<rparr>
             in and_then (session_commit_card c' d) (\<lambda>d'.
                  Inr (JSONResponse (CardDict c') 200, d'))))))"

definition delete_card :: handler where
  "delete_card body d =
     and_then (subscript body ''id'') (\<lambda>cid.
       case session_get_card d cid of
         None \<Rightarrow> Inr (JSONResponse (ErrorDict ''card not found'') 404, d)
       | Some c \<Rightarrow>
           and_then (session_delete_card c d) (\<lambda>d'.
             Inr (JSONResponse (CardDict c) 200, d')))"

subsection \<open>CardCategory\<close>

definition get_cards_categories :: handler where
  "get_cards_categories body d =
     and_then (subscript body ''user_id'') (\<lambda>uid.
       case select_user d uid of
         None \<Rightarrow> Inl (AttributeError ''id'')
       | Some user \<Rightarrow>
           Inr (JSONResponse
                  (CardCategoryDicts (filter (\<lambda>c. cc_user_id c = u_id user) (card_categories d)))
                  200, d))"

definition get_card_category :: "string \<Rightarrow> handler" where
  "get_card_category card_category_id body d =
     and_then (subscript body ''user_id'') (\<lambda>uid.
       case session_get_card_category d (JStr card_category_id) of
         None \<Rightarrow> Inr (JSONResponse (ErrorDict ''card category not found'') 404, d)
       | Some c \<Rightarrow>
           (case select_user d uid of
              None \<Rightarrow> Inl (AttributeError ''id'')
            | Some user \<Rightarrow>
                if cc_user_id c = u_id user then Inr (JSONResponse (CardCategoryDict c) 200, d)
                else Inr (JSONResponse (ErrorDict ''card category not found'') 404, d)))"

definition create_card_category :: "env \<Rightarrow> handler" where
  "create_card_category e body d =
     and_then (subscript body ''user_id'') (\<lambda>uid.
     and_then (subscript body ''name'') (\<lambda>name.
     and_then (subscript body ''color'') (\<lambda>color.
       case select_user d uid of
         None \<Rightarrow> Inl (AttributeError ''id'')
       | Some user \<Rightarrow>
           let c = \<lparr>cc_id = uuid4 e, cc_name = name, cc_color = color,
                    cc_user_id = u_id user,
                    cc_created_at = now e, cc_update_at = now e\<rparr>
           in and_then (session_add_card_category c d) (\<lambda>d'.
                Inr (JSONResponse (CardCategoryDict c) 200, d')))))"

definition update_card_category :: "env \<Rightarrow> handler" where
  "update_card_category e body d =
     and_then (subscript body ''category_id'') (\<lambda>cid.
       case session_get_card_category d cid of
         None \<Rightarrow> Inr (JSONResponse (ErrorDict ''card category not found'') 404, d)
       | Some c \<Rightarrow>
           and_then (subscript body ''name'') (\<lambda>name.
           and_then (subscript body ''color'') (\<lambda>color.
             let c' = c\<lparr>cc_name := name, cc_color := color, cc_update_at := now e\<rparr>
             in and_then (session_commit_card_category c' d) (\<lambda>d'.
                  Inr (JSONResponse (CardCategoryDict c') 200, d')))))"

definition delete_card_category :: handler where
  "delete_card_category body d =
     and_then (subscript body ''category_id'') (\<lambda>cid.
       case session_get_card_category d cid of
         None \<Rightarrow> Inr (JSONResponse (ErrorDict ''card category not found'') 404, d)
       | Some c \<Rightarrow>
           and_then (session_delete_card_category c d) (\<lambda>d'.
             Inr (JSONResponse (CardCategoryDict c) 200, d')))"

subsection \<open>Routes\<close>

datatype route =
    GET_user
  | POST_user
  | PUT_user
  | DELETE_user
  | GET_card
  | GET_card_id string
  | POST_card
  | PUT_card
  | DELETE_card
  | GET_card_category
  | GET_card_category_id string
  | POST_card_category
  | PUT_card_category
  | DELETE_card_category

text \<open>
  \<open>init_app\<close> registers each view under its decorators; the decorator written first is
  the outermost and runs first.
\<close>

fun init_app :: "env \<Rightarrow> route \<Rightarrow> handler" where
  "init_app e GET_user = token_required get_user"
| "init_app e POST_user = required_fields [''name'', ''email'', ''password''] (create_user e)"
| "init_app e PUT_user =
     token_required (required_fields [''name'', ''password'', ''email''] (update_user e))"
| "init_app e DELETE_user = token_required delete_user"
| "init_app e GET_card = token_required get_cards"
| "init_app e (GET_card_id card_id) = token_required (get_card card_id)"
| "init_app e POST_card =
     token_required (required_fields [''title'', ''category_id'', ''status''] (create_card e))"
| "init_app e PUT_card =
     token_required
       (required_fields [''id'', ''status'', ''title'', ''category_id''] (update_card e))"
| "init_app e DELETE_card = token_required (required_fields [''id''] delete_card)"
| "init_app e GET_card_category = token_required get_cards_categories"
| "init_app e (GET_card_category_id card_category_id) =
     token_required (get_card_category card_category_id)"
| "init_app e POST_card_category =
     token_required (required_fields [''name'', ''color''] (create_card_category e))"
| "init_app e PUT_card_category =
     token_required
       (required_fields [''category_id'', ''name'', ''color''] (update_card_category e))"
| "init_app e DELETE_card_category =
     token_required (required_fields [''category_id''] delete_card_category)"

text \<open>The function under the \<open>token_required\<close> decorator of a route that has one.\<close>

fun wrapped :: "env \<Rightarrow> route \<Rightarrow> handler" where
  "wrapped e GET_user = get_user"
| "wrapped e POST_user = required_fields [''name'', ''email'', ''password''] (create_user e)"
| "wrapped e PUT_user = required_fields [''name'', ''password'', ''email''] (update_user e)"
| "wrapped e DELETE_user = delete_user"
| "wrapped e GET_card = get_cards"
| "wrapped e (GET_card_id card_id) = get_card card_id"
| "wrapped e POST_card = required_fields [''title'', ''category_id'', ''status''] (create_card e)"
| "wrapped e PUT_card =
     required_fields [''id'', ''status'', ''title'', ''category_id''] (update_card e)"
| "wrapped e DELETE_card = required_fields [''id''] delete_card"
| "wrapped e GET_card_category = get_cards_categories"
| "wrapped e (GET_card_category_id card_category_id) = get_card_category card_category_id"
| "wrapped e POST_card_category = required_fields [''name'', ''color''] (create_card_category e)"
| "wrapped e PUT_card_category =
     required_fields [''category_id'', ''name'', ''color''] (update_card_category e)"
| "wrapped e DELETE_card_category = required_fields [''category_id''] delete_card_category"

section \<open>Vocabulary of the specification\<close>

text \<open>A field is missing from a body when it is absent or null.\<close>

definition missing :: "body \<Rightarrow> string \<Rightarrow> bool" where
  "missing body field = (body field = None \<or> body field = Some JNull)"

text \<open>A value names a user when some stored user has it as identifier.\<close>

definition names_user :: "db \<Rightarrow> json \<Rightarrow> bool" where
  "names_user d v = (\<exists>u \<in> set (users d). JStr (u_id u) = v)"

section \<open>Example data\<close>

text \<open>The example's \<open>hashpw\<close> refuses more than 72 bytes, as bcrypt 5 does.\<close>

definition example_env :: env where
  "example_env =
     \<lparr>uuid4 = ''id-9'', gensalt = ''$2b$08$'',
      hashpw = (\<lambda>pw salt. if 72 < length pw then Inl (ValueError ''password'')
                           else Inr (salt @ rev pw)),
      now = 7\<rparr>"

definition ann :: user where
  "ann = \<lparr>u_id = ''u1'', u_name = JStr ''ann'', u_email = JStr ''ann@x'', u_password = ''h1'',
          u_photo = JNull, u_created_at = 1, u_update_at = 1\<rparr>"

definition bob :: user where
  "bob = \<lparr>u_id = ''u2'', u_name = JStr ''bob'', u_email = JStr ''bob@x'', u_password = ''h2'',
          u_photo = JNull, u_created_at = 2, u_update_at = 2\<rparr>"

definition todo :: card_category where
  "todo = \<lparr>cc_id = ''k1'', cc_name = JStr ''todo'', cc_color = JStr ''red'', cc_user_id = ''u1'',
           cc_created_at = 3, cc_update_at = 3\<rparr>"

definition later :: card_category where
  "later = \<lparr>cc_id = ''k2'', cc_name = JStr ''later'', cc_color = JStr ''grey'', cc_user_id = ''u1'',
            cc_created_at = 5, cc_update_at = 5\<rparr>"

definition task :: card where
  "task = \<lparr>c_id = ''c1'', c_title = JStr ''write'', c_description = JStr ''draft'',
           c_status = JStr ''open'', c_category_id = JStr ''k1'', c_user_id = ''u1'',
           c_created_at = 4, c_update_at = 4\<rparr>"

definition example_db :: db where
  "example_db = \<lparr>users = [ann, bob], cards = [task], card_categories = [todo, later]\<rparr>"

text \<open>A body that has every field some route requires, for a given user, card and category.\<close>

definition full_body :: "string \<Rightarrow> string \<Rightarrow> string \<Rightarrow> body" where
  "full_body uid cid kid =
     [''user_id'' \<mapsto> JStr uid, ''id'' \<mapsto> JStr cid, ''category_id'' \<mapsto> JStr kid,
      ''status'' \<mapsto> JStr ''done'', ''title'' \<mapsto> JStr ''t'', ''name'' \<mapsto> JStr ''n'',
      ''color'' \<mapsto> JStr ''blue'', ''email'' \<mapsto> JStr ''m@x'', ''password'' \<mapsto> JStr ''pw'']"


section \<open>Basic facts\<close>

lemma body_get_JNull_iff: "body_get body field = JNull \<longleftrightarrow> missing body field"
  by (simp add: body_get_def missing_def split: option.splits)

lemma required_fields_raise:
  "\<forall>f \<in> set pre. \<not> missing body f \<Longrightarrow> missing body field \<Longrightarrow>
   required_fields (pre @ field # post) function body d =
     Inl (HTTPException 400 (required_detail field))"
  by (induction pre) (simp_all add: body_get_JNull_iff)

lemma required_fields_pass:
  "\<forall>f \<in> set field_names. \<not> missing body f \<Longrightarrow>
   required_fields field_names function body d = function body d"
  by (induction field_names) (simp_all add: body_get_JNull_iff)

subsection \<open>Rows\<close>

lemma row_get_JNull: "row_get key rows JNull = None"
  by (simp add: row_get_def find_None_iff)

lemma row_get_key: "row_get key rows v = Some r \<Longrightarrow> v = JStr (key r)"
  by (auto simp: row_get_def find_Some_iff)

lemma row_get_None_iff: "row_get key rows v = None \<longleftrightarrow> \<not> (\<exists>r \<in> set rows. JStr (key r) = v)"
  by (auto simp: row_get_def find_None_iff)


lemma row_get_delete_same:
  "row_get key (rows_without key r rows) (JStr (key r)) = None"
  by (auto simp: row_get_def rows_without_def find_None_iff)



subsection \<open>The user check\<close>

lemma select_user_None_iff: "select_user d v = None \<longleftrightarrow> \<not> names_user d v"
  by (simp add: select_user_def names_user_def row_get_None_iff)

lemma select_user_not_missing:
  "select_user d (body_get body ''user_id'') = Some u \<Longrightarrow> \<not> missing body ''user_id''"
  using row_get_JNull [of u_id "users d"]
  by (auto simp: select_user_def body_get_JNull_iff [symmetric])

lemma subscript_body_get:
  "\<not> missing body field \<Longrightarrow> subscript body field = Inr (body_get body field)"
  by (auto simp: subscript_def body_get_def missing_def split: option.splits)

lemma token_required_absent:
  "missing body ''user_id'' \<Longrightarrow>
   token_required function body d = Inl (HTTPException 400 (required_detail ''user_id''))"
  by (simp add: token_required_def body_get_JNull_iff)

lemma token_required_invalid:
  "\<not> missing body ''user_id'' \<Longrightarrow> select_user d (body_get body ''user_id'') = None \<Longrightarrow>
   token_required function body d = Inl (HTTPException 400 ''invalid user_id'')"
  by (simp add: token_required_def body_get_JNull_iff subscript_body_get and_then_def)

lemma token_required_pass:
  "select_user d (body_get body ''user_id'') = Some u \<Longrightarrow>
   token_required function body d = function body d"
  using select_user_not_missing [of d body u]
  by (simp add: token_required_def body_get_JNull_iff subscript_body_get and_then_def)

lemma init_app_wrapped: "r \<noteq> POST_user \<Longrightarrow> init_app e r = token_required (wrapped e r)"
  by (cases r) simp_all

section \<open>The required-fields check\<close>

text \<open>
  C2. For every list of mandatory field names and every decoded body, the check raises
  HTTP 400 naming the first field, in the declared order, that is absent or null in the
  body, when there is one; otherwise its result is the wrapped handler's result on the
  same body and the same store, and nothing else happens.
\<close>

theorem required_fields_first_missing:
  "(field_names = pre @ field # post \<and> (\<forall>f \<in> set pre. \<not> missing body f) \<and> missing body field
      \<longrightarrow> required_fields field_names function body d =
            Inl (HTTPException 400 (required_detail field)))
   \<and> ((\<forall>f \<in> set field_names. \<not> missing body f)
      \<longrightarrow> required_fields field_names function body d = function body d)"
  by (auto simp: required_fields_raise required_fields_pass)

theorem required_fields_first_missing_witness:
  "required_fields [''name'', ''email'', ''password''] (create_user example_env)
     [''name'' \<mapsto> JStr ''eve'', ''email'' \<mapsto> JNull] example_db =
     Inl (HTTPException 400 (required_detail ''email''))
   \<and> required_fields [''name'', ''color''] (create_card_category example_env)
       [''user_id'' \<mapsto> JStr ''u1'', ''name'' \<mapsto> JStr ''done'', ''color'' \<mapsto> JStr ''blue'']
       example_db =
     create_card_category example_env
       [''user_id'' \<mapsto> JStr ''u1'', ''name'' \<mapsto> JStr ''done'', ''color'' \<mapsto> JStr ''blue'']
       example_db"
  using required_fields_first_missing
      [of "[''name'', ''email'', ''password'']" "[''name'']" "''email''" "[''password'']"
          "[''name'' \<mapsto> JStr ''eve'', ''email'' \<mapsto> JNull]"
          "create_user example_env" example_db]
    required_fields_first_missing
      [of "[''name'', ''color'']" "[]" "''x''" "[]"
          "[''user_id'' \<mapsto> JStr ''u1'', ''name'' \<mapsto> JStr ''done'', ''color'' \<mapsto> JStr ''blue'']"
          "create_card_category example_env" example_db]
  by (simp add: missing_def)

section \<open>The user check on the routes\<close>

text \<open>
  C1 (amended). For every request to a route other than POST /user: if the body's
  \<open>user_id\<close> is absent or null the response is HTTP 400 naming \<open>user_id\<close>; if it is
  present and names no stored user the response is HTTP 400 with the detail
  \<open>invalid user_id\<close>; and if it names a stored user the result is that of the function
  the decorator wraps.
\<close>

theorem token_required_on_routes:
  "r \<noteq> POST_user \<Longrightarrow>
   (missing body ''user_id'' \<longrightarrow>
      init_app e r body d = Inl (HTTPException 400 (required_detail ''user_id'')))
   \<and> (\<not> missing body ''user_id'' \<and> \<not> names_user d (body_get body ''user_id'') \<longrightarrow>
      init_app e r body d = Inl (HTTPException 400 ''invalid user_id''))
   \<and> (names_user d (body_get body ''user_id'') \<longrightarrow>
      init_app e r body d = wrapped e r body d)"
proof -
  assume r: "r \<noteq> POST_user"
  have absent: "missing body ''user_id'' \<longrightarrow>
      init_app e r body d = Inl (HTTPException 400 (required_detail ''user_id''))"
    by (simp add: init_app_wrapped [OF r] token_required_absent)
  have invalid: "\<not> missing body ''user_id'' \<and> \<not> names_user d (body_get body ''user_id'') \<longrightarrow>
      init_app e r body d = Inl (HTTPException 400 ''invalid user_id'')"
    by (simp add: init_app_wrapped [OF r] token_required_invalid select_user_None_iff)
  have pass: "names_user d (body_get body ''user_id'') \<longrightarrow>
      init_app e r body d = wrapped e r body d"
  proof
    assume "names_user d (body_get body ''user_id'')"
    then obtain u where "select_user d (body_get body ''user_id'') = Some u"
      using select_user_None_iff [of d "body_get body ''user_id''"]
      by (cases "select_user d (body_get body ''user_id'')") auto
    then show "init_app e r body d = wrapped e r body d"
      by (simp add: init_app_wrapped [OF r] token_required_pass)
  qed
  from absent invalid pass show ?thesis by blast
qed

theorem token_required_on_routes_witness:
  "GET_card \<noteq> POST_user
   \<and> init_app example_env GET_card [''title'' \<mapsto> JStr ''x''] example_db =
       Inl (HTTPException 400 (required_detail ''user_id''))
   \<and> init_app example_env GET_card [''user_id'' \<mapsto> JStr ''u7''] example_db =
       Inl (HTTPException 400 ''invalid user_id'')
   \<and> init_app example_env GET_card [''user_id'' \<mapsto> JStr ''u1''] example_db =
       wrapped example_env GET_card [''user_id'' \<mapsto> JStr ''u1''] example_db"
  using token_required_on_routes [of GET_card "[''title'' \<mapsto> JStr ''x'']" example_env example_db]
    token_required_on_routes [of GET_card "[''user_id'' \<mapsto> JStr ''u7'']" example_env example_db]
    token_required_on_routes [of GET_card "[''user_id'' \<mapsto> JStr ''u1'']" example_env example_db]
  by (simp add: missing_def names_user_def body_get_def example_db_def ann_def bob_def)

text \<open>
  POST /user carries no \<open>token_required\<close>: a body without \<open>user_id\<close>, and one whose
  \<open>user_id\<close> names no user, are both answered with 200.
\<close>

theorem post_user_without_user_id:
  "missing [''name'' \<mapsto> JStr ''eve'', ''email'' \<mapsto> JStr ''eve@x'', ''password'' \<mapsto> JStr ''pw''] ''user_id''
   \<and> status_code (init_app example_env POST_user
        [''name'' \<mapsto> JStr ''eve'', ''email'' \<mapsto> JStr ''eve@x'', ''password'' \<mapsto> JStr ''pw'']
        example_db) = 200
   \<and> \<not> names_user example_db (JStr ''u7'')
   \<and> status_code (init_app example_env POST_user
        [''user_id'' \<mapsto> JStr ''u7'', ''name'' \<mapsto> JStr ''eve'', ''email'' \<mapsto> JStr ''eve@x'',
         ''password'' \<mapsto> JStr ''pw'']
        example_db) = 200"
  by (simp add: missing_def names_user_def body_get_def example_db_def ann_def bob_def
      create_user_def subscript_def and_then_def encode_def session_add_user_def row_add_def
      example_env_def Let_def)

section \<open>Fetching one record\<close>

lemma found_not_missing:
  "row_get key rows (body_get body field) = Some r \<Longrightarrow> \<not> missing body field"
  using row_get_JNull [of key rows]
  by (auto simp: body_get_JNull_iff [symmetric])

lemma get_card_route:
  assumes "select_user d (body_get body ''user_id'') = Some u"
  shows "init_app e (GET_card_id card_id) body d =
     (case session_get_card d (JStr card_id) of
        None \<Rightarrow> Inr (JSONResponse (ErrorDict ''card not found'') 404, d)
      | Some c \<Rightarrow>
          if c_user_id c = u_id u then Inr (JSONResponse (CardDict c) 200, d)
          else Inr (JSONResponse (ErrorDict ''card not found'') 404, d))"
  using assms select_user_not_missing [OF assms]
  by (simp add: token_required_pass get_card_def subscript_body_get and_then_def
      split: option.splits)

lemma get_card_category_route:
  assumes "select_user d (body_get body ''user_id'') = Some u"
  shows "init_app e (GET_card_category_id card_category_id) body d =
     (case session_get_card_category d (JStr card_category_id) of
        None \<Rightarrow> Inr (JSONResponse (ErrorDict ''card category not found'') 404, d)
      | Some c \<Rightarrow>
          if cc_user_id c = u_id u then Inr (JSONResponse (CardCategoryDict c) 200, d)
          else Inr (JSONResponse (ErrorDict ''card category not found'') 404, d))"
  using assms select_user_not_missing [OF assms]
  by (simp add: token_required_pass get_card_category_def subscript_body_get and_then_def
      split: option.splits)

text \<open>
  C3. For GET /card/{id} and GET /card-category/{id} by an authenticated user \<open>u\<close>: when
  a record with the given id exists and its \<open>user_id\<close> is \<open>u\<close>'s id, the response is 200
  with that record; when no such record exists, or it belongs to another user, the
  response is 404.
\<close>

theorem get_by_id_owner_only:
  assumes "select_user d (body_get body ''user_id'') = Some u"
  shows
    "(\<forall>c. session_get_card d (JStr card_id) = Some c \<and> c_user_id c = u_id u \<longrightarrow>
        init_app e (GET_card_id card_id) body d = Inr (JSONResponse (CardDict c) 200, d))
     \<and> (session_get_card d (JStr card_id) = None
          \<or> (\<exists>c. session_get_card d (JStr card_id) = Some c \<and> c_user_id c \<noteq> u_id u) \<longrightarrow>
        init_app e (GET_card_id card_id) body d =
          Inr (JSONResponse (ErrorDict ''card not found'') 404, d))
     \<and> (\<forall>c. session_get_card_category d (JStr card_category_id) = Some c
            \<and> cc_user_id c = u_id u \<longrightarrow>
        init_app e (GET_card_category_id card_category_id) body d =
          Inr (JSONResponse (CardCategoryDict c) 200, d))
     \<and> (session_get_card_category d (JStr card_category_id) = None
          \<or> (\<exists>c. session_get_card_category d (JStr card_category_id) = Some c
                \<and> cc_user_id c \<noteq> u_id u) \<longrightarrow>
        init_app e (GET_card_category_id card_category_id) body d =
          Inr (JSONResponse (ErrorDict ''card category not found'') 404, d))"
  by (auto simp: get_card_route [OF assms] get_card_category_route [OF assms]
      simp del: init_app.simps)

lemma example_lookups:
  "select_user example_db (JStr ''u1'') = Some ann"
  "select_user example_db (JStr ''u2'') = Some bob"
  "session_get_card example_db (JStr ''c1'') = Some task"
  "session_get_card example_db (JStr ''c5'') = None"
  "session_get_card_category example_db (JStr ''k1'') = Some todo"
  "session_get_card_category example_db (JStr ''k2'') = Some later"
  "session_get_card_category example_db (JStr ''k5'') = None"
  by (simp_all add: select_user_def session_get_card_def session_get_card_category_def
      row_get_def example_db_def ann_def bob_def task_def todo_def later_def)

theorem get_by_id_owner_only_witness:
  "select_user example_db (body_get [''user_id'' \<mapsto> JStr ''u1''] ''user_id'') = Some ann
   \<and> init_app example_env (GET_card_id ''c1'') [''user_id'' \<mapsto> JStr ''u1''] example_db =
       Inr (JSONResponse (CardDict task) 200, example_db)
   \<and> init_app example_env (GET_card_category_id ''k1'') [''user_id'' \<mapsto> JStr ''u1''] example_db =
       Inr (JSONResponse (CardCategoryDict todo) 200, example_db)
   \<and> init_app example_env (GET_card_id ''c1'') [''user_id'' \<mapsto> JStr ''u2''] example_db =
       Inr (JSONResponse (ErrorDict ''card not found'') 404, example_db)
   \<and> init_app example_env (GET_card_category_id ''k5'') [''user_id'' \<mapsto> JStr ''u2''] example_db =
       Inr (JSONResponse (ErrorDict ''card category not found'') 404, example_db)"
  using get_by_id_owner_only [where d = example_db and body = "[''user_id'' \<mapsto> JStr ''u1'']"
      and u = ann and card_id = "''c1''" and card_category_id = "''k1''" and e = example_env]
    get_by_id_owner_only [where d = example_db and body = "[''user_id'' \<mapsto> JStr ''u2'']"
      and u = bob and card_id = "''c1''" and card_category_id = "''k5''" and e = example_env]
  by (simp add: example_lookups body_get_def) (simp add: ann_def bob_def task_def todo_def)

section \<open>Updating and deleting\<close>






lemma delete_card_found:
  assumes "select_user d (body_get body ''user_id'') = Some u"
    and "session_get_card d (body_get body ''id'') = Some c"
  shows "init_app e DELETE_card body d =
     Inr (JSONResponse (CardDict c) 200, d\<lparr>cards := rows_without c_id c (cards d)\<rparr>)"
proof -
  have "\<not> missing body ''id''"
    using assms(2) found_not_missing unfolding session_get_card_def by fast
  with assms show ?thesis
    by (simp add: token_required_pass body_get_JNull_iff delete_card_def
        session_delete_card_def subscript_body_get and_then_def)
qed

lemma delete_card_absent:
  assumes "select_user d (body_get body ''user_id'') = Some u"
    and "session_get_card d (body_get body ''id'') = None"
    and "\<not> missing body ''id''"
  shows "init_app e DELETE_card body d = Inr (JSONResponse (ErrorDict ''card not found'') 404, d)"
  using assms
  by (simp add: token_required_pass body_get_JNull_iff delete_card_def
      subscript_body_get and_then_def)








lemma session_get_card_deleted:
  "session_get_card d v = Some c \<Longrightarrow>
   session_get_card (d\<lparr>cards := rows_without c_id c (cards d)\<rparr>) v = None"
  using row_get_key [of c_id "cards d" v c]
  by (simp add: session_get_card_def row_get_delete_same)



lemma full_body_get:
  "body_get (full_body uid cid kid) ''user_id'' = JStr uid"
  "body_get (full_body uid cid kid) ''id'' = JStr cid"
  "body_get (full_body uid cid kid) ''category_id'' = JStr kid"
  "body_get (full_body uid cid kid) ''password'' = JStr ''pw''"
  "\<not> missing (full_body uid cid kid) ''user_id''"
  "\<not> missing (full_body uid cid kid) ''id''"
  "\<not> missing (full_body uid cid kid) ''category_id''"
  "\<not> missing (full_body uid cid kid) ''status''"
  "\<not> missing (full_body uid cid kid) ''title''"
  "\<not> missing (full_body uid cid kid) ''name''"
  "\<not> missing (full_body uid cid kid) ''color''"
  "\<not> missing (full_body uid cid kid) ''email''"
  "\<not> missing (full_body uid cid kid) ''password''"
  by (simp_all add: full_body_def body_get_def missing_def)

section \<open>Creating a card\<close>





section \<open>Deleting, then fetching\<close>

text \<open>
  C8. DELETE /card loads the card by the id in the body, removes it and returns the
  record as it was, or returns 404 when no card has that id; after a successful DELETE
  /card, GET /card/{id} for the same id returns 404 for any authenticated user.
\<close>

theorem delete_then_get_not_found:
  assumes "select_user d (body_get body ''user_id'') = Some u"
  shows
    "(\<not> missing body ''id'' \<and> session_get_card d (body_get body ''id'') = None \<longrightarrow>
        init_app e DELETE_card body d =
          Inr (JSONResponse (ErrorDict ''card not found'') 404, d))
     \<and> (\<forall>c. session_get_card d (body_get body ''id'') = Some c \<longrightarrow>
          (\<exists>d'. init_app e DELETE_card body d = Inr (JSONResponse (CardDict c) 200, d')
             \<and> body_get body ''id'' = JStr (c_id c)
             \<and> session_get_card d' (JStr (c_id c)) = None
             \<and> (\<forall>e' body' u'. select_user d' (body_get body' ''user_id'') = Some u' \<longrightarrow>
                  init_app e' (GET_card_id (c_id c)) body' d' =
                    Inr (JSONResponse (ErrorDict ''card not found'') 404, d'))))"
proof (intro conjI allI impI)
  assume "\<not> missing body ''id'' \<and> session_get_card d (body_get body ''id'') = None"
  then show "init_app e DELETE_card body d =
          Inr (JSONResponse (ErrorDict ''card not found'') 404, d)"
    using delete_card_absent [OF assms, of e] by blast
next
  fix c
  assume found: "session_get_card d (body_get body ''id'') = Some c"
  then have key: "body_get body ''id'' = JStr (c_id c)"
    using row_get_key [of c_id "cards d"] by (simp add: session_get_card_def)
  let ?d' = "d\<lparr>cards := rows_without c_id c (cards d)\<rparr>"
  have gone: "session_get_card ?d' (JStr (c_id c)) = None"
    using session_get_card_deleted [OF found] key by simp
  have "init_app e' (GET_card_id (c_id c)) body' ?d' =
          Inr (JSONResponse (ErrorDict ''card not found'') 404, ?d')"
    if "select_user ?d' (body_get body' ''user_id'') = Some u'" for e' body' u'
    using get_card_route [OF that, of e' "c_id c"] gone by simp
  then show "\<exists>d'. init_app e DELETE_card body d = Inr (JSONResponse (CardDict c) 200, d')
             \<and> body_get body ''id'' = JStr (c_id c)
             \<and> session_get_card d' (JStr (c_id c)) = None
             \<and> (\<forall>e' body' u'. select_user d' (body_get body' ''user_id'') = Some u' \<longrightarrow>
                  init_app e' (GET_card_id (c_id c)) body' d' =
                    Inr (JSONResponse (ErrorDict ''card not found'') 404, d'))"
    using delete_card_found [OF assms found, of e] key gone by blast
qed

theorem delete_then_get_not_found_witness:
  "select_user example_db (body_get (full_body ''u1'' ''c1'' ''k1'') ''user_id'') = Some ann
   \<and> init_app example_env DELETE_card (full_body ''u1'' ''c1'' ''k1'') example_db =
       Inr (JSONResponse (CardDict task) 200, example_db\<lparr>cards := []\<rparr>)
   \<and> init_app example_env (GET_card_id ''c1'') [''user_id'' \<mapsto> JStr ''u1'']
       (example_db\<lparr>cards := []\<rparr>) =
       Inr (JSONResponse (ErrorDict ''card not found'') 404, example_db\<lparr>cards := []\<rparr>)
   \<and> init_app example_env DELETE_card (full_body ''u1'' ''c5'' ''k1'') example_db =
       Inr (JSONResponse (ErrorDict ''card not found'') 404, example_db)"
proof -
  have found: "select_user example_db (body_get (full_body ''u1'' ''c1'' ''k1'') ''user_id'') = Some ann"
    by (simp add: full_body_get example_lookups)
  have absent: "select_user example_db (body_get (full_body ''u1'' ''c5'' ''k1'') ''user_id'') = Some ann"
    by (simp add: full_body_get example_lookups)
  have deleted: "init_app example_env DELETE_card (full_body ''u1'' ''c1'' ''k1'') example_db =
       Inr (JSONResponse (CardDict task) 200, example_db\<lparr>cards := []\<rparr>)"
    using delete_card_found [OF found, of task example_env]
    by (simp add: full_body_get example_lookups rows_without_def del: init_app.simps)
       (simp add: example_db_def)
  have still: "select_user (example_db\<lparr>cards := []\<rparr>)
       (body_get [''user_id'' \<mapsto> JStr ''u1''] ''user_id'') = Some ann"
    using example_lookups(1) by (simp add: select_user_def body_get_def)
  have "init_app example_env (GET_card_id ''c1'') [''user_id'' \<mapsto> JStr ''u1'']
       (example_db\<lparr>cards := []\<rparr>) =
       Inr (JSONResponse (ErrorDict ''card not found'') 404, example_db\<lparr>cards := []\<rparr>)"
    using delete_then_get_not_found [OF found, of example_env] deleted still
    by (simp add: full_body_get example_lookups del: init_app.simps)
  moreover have "init_app example_env DELETE_card (full_body ''u1'' ''c5'' ''k1'') example_db =
       Inr (JSONResponse (ErrorDict ''card not found'') 404, example_db)"
    using delete_then_get_not_found [OF absent, of example_env]
    by (simp add: full_body_get example_lookups del: init_app.simps)
  ultimately show ?thesis using found deleted by blast
qed

section \<open>Creating a category, then fetching it\<close>




section \<open>Ownership on update and delete\<close>





section \<open>What PUT writes\<close>












section \<open>The field that carries the target's id\<close>






section \<open>Creating a user\<close>






end
